theory Spec2Isabelle
  imports Main
begin

section \<open>JavaScript values and errors\<close>

text \<open>
  The service is an Express application. Values that travel through JSON (token claims,
  request bodies) are modelled by a small datatype of JavaScript values; \<open>truthy\<close> is
  JavaScript's ToBoolean on them, which is what \<open>!x\<close>, \<open>x || y\<close> and \<open>x && y\<close> test.
  Logging (the \<open>logger\<close> calls of the source) has no effect on the values computed and
  is left out of the model.
\<close>

datatype jsval = JUndefined | JNull | JBool bool | JNum int | JStr string | JDate nat

fun truthy :: "jsval \<Rightarrow> bool" where
  "truthy JUndefined = False"
| "truthy JNull = False"
| "truthy (JBool b) = b"
| "truthy (JNum n) = (n \<noteq> 0)"
| "truthy (JStr s) = (s \<noteq> [])"
| "truthy (JDate t) = True"

text \<open>\<open>a || b\<close>\<close>

definition js_or :: "jsval \<Rightarrow> jsval \<Rightarrow> jsval" where
  "js_or a b = (if truthy a then a else b)"

text \<open>\<open>obj[key]\<close> on a plain object: a missing key reads as \<open>undefined\<close>.\<close>

definition js_get :: "(string \<rightharpoonup> jsval) \<Rightarrow> string \<Rightarrow> jsval" where
  "js_get obj k = (case obj k of None \<Rightarrow> JUndefined | Some v \<Rightarrow> v)"

text \<open>
  A thrown JavaScript error: an \<open>Error\<close> or a \<open>TypeError\<close> with its message, or an error
  raised by the database driver when it rejects a statement.
\<close>

datatype js_error = Error string | TypeError string | DatabaseError

text \<open>\<open>e.message === m\<close>; no message of the driver is one of the texts the code compares with.\<close>

fun has_message :: "js_error \<Rightarrow> string \<Rightarrow> bool" where
  "has_message (Error msg) m = (msg = m)"
| "has_message (TypeError msg) m = (msg = m)"
| "has_message DatabaseError m = False"

text \<open>The part of \<open>process.env\<close> the code reads.\<close>

record env =
  NODE_ENV :: "string option"
  JWT_SECRET_var :: "string option"

section \<open>Identities and tokens\<close>

text \<open>
  \<open>req.user\<close> and the payload handed to \<open>jwttoken.sign\<close>: \<open>{ id, email, role }\<close>.
  The role is whatever JSON value the token carries (it may be missing).
\<close>

record identity =
  id_of :: int
  email_of :: string
  role_of :: jsval

text \<open>The payload of a verified token: the claims plus \<open>iat\<close> and \<open>exp\<close>, in seconds.\<close>

record decoded = identity +
  iat :: nat
  exp :: nat

definition claims_of :: "decoded \<Rightarrow> identity" where
  "claims_of d = \<lparr>id_of = id_of d, email_of = email_of d, role_of = role_of d\<rparr>"

text \<open>
  A token is a string. \<open>Signed d k\<close> stands for the compact serialisation of a well-formed
  JWT with payload \<open>d\<close> whose signature was computed with key \<open>k\<close>; \<open>Garbage s\<close> is any
  other string \<open>s\<close>, the empty string included.
\<close>

datatype token = Signed decoded string | Garbage string

text \<open>\<open>!token\<close> on a string: only the empty string is falsy.\<close>

fun token_falsy :: "token \<Rightarrow> bool" where
  "token_falsy (Garbage s) = (s = [])"
| "token_falsy (Signed d k) = False"

subsection \<open>The jsonwebtoken library\<close>

datatype jwt_error = TokenExpiredError | JsonWebTokenError

text \<open>
  Modelled from the spec: the third-party \<open>jsonwebtoken\<close> package (\<open>jwt.sign\<close>,
  \<open>jwt.verify\<close>) is not part of the sources. The spec's TokenService: sign embeds the
  claims, \<open>issued_at\<close> and \<open>expires_at = issued_at + lifetime\<close>; verify fails with Expired
  when \<open>now > expires_at\<close> and with Malformed when signature or structure is invalid.
  Signing needs a key that has a value.
\<close>

definition jwt_sign :: "identity \<Rightarrow> string \<Rightarrow> nat \<Rightarrow> nat \<Rightarrow> jwt_error + token" where
  "jwt_sign payload secret expiresIn now =
     (if secret = [] then Inl JsonWebTokenError
      else Inr (Signed \<lparr>id_of = id_of payload, email_of = email_of payload,
                          role_of = role_of payload, iat = now, exp = now + expiresIn\<rparr>
                  secret))"

fun jwt_verify :: "token \<Rightarrow> string \<Rightarrow> nat \<Rightarrow> jwt_error + decoded" where
  "jwt_verify (Garbage s) secret now = Inl JsonWebTokenError"
| "jwt_verify (Signed d k) secret now =
     (if k \<noteq> secret then Inl JsonWebTokenError
      else if now > exp d then Inl TokenExpiredError
      else Inr d)"

subsection \<open>utils/jwt.js\<close>

text \<open>\<open>process.env.JWT_SECRET || 'your-secret-key-please-change-in-production'\<close>\<close>

definition JWT_SECRET :: "env \<Rightarrow> string" where
  "JWT_SECRET e =
     (case JWT_SECRET_var e of
        None \<Rightarrow> ''your-secret-key-please-change-in-production''
      | Some s \<Rightarrow> if s = [] then ''your-secret-key-please-change-in-production'' else s)"

text \<open>\<open>'1d'\<close>, in seconds.\<close>

definition JWT_EXPIRES_IN :: nat where
  "JWT_EXPIRES_IN = 24 * 60 * 60"

text \<open>
  Both wrappers catch whatever the library throws and throw a fresh
  \<open>Error('failed to authenticate token')\<close> in its place.
\<close>

definition jwttoken_sign :: "env \<Rightarrow> identity \<Rightarrow> nat \<Rightarrow> js_error + token" where
  "jwttoken_sign e payload now =
     (case jwt_sign payload (JWT_SECRET e) JWT_EXPIRES_IN now of
        Inr t \<Rightarrow> Inr t
      | Inl err \<Rightarrow> Inl (Error ''failed to authenticate token''))"

definition jwttoken_verify :: "env \<Rightarrow> token \<Rightarrow> nat \<Rightarrow> js_error + decoded" where
  "jwttoken_verify e t now =
     (case jwt_verify t (JWT_SECRET e) now of
        Inr d \<Rightarrow> Inr d
      | Inl err \<Rightarrow> Inl (Error ''failed to authenticate token''))"

section \<open>Requests and responses\<close>

text \<open>
  The fields of an Express request the code reads. \<open>cookies\<close> is \<open>None\<close> when the
  property is undefined on the object (no cookie parser has filled it in).
\<close>

record request =
  cookies :: "(string \<rightharpoonup> token) option"
  user :: "identity option"

text \<open>What \<open>res.cookie\<close> and \<open>res.clearCookie\<close> were called with, in call order.\<close>

datatype cookie_call =
    Cookie string token "string \<rightharpoonup> jsval"
  | ClearCookie string "string \<rightharpoonup> jsval"

record response =
  cookie_calls :: "cookie_call list"

section \<open>utils/cookies.js\<close>

definition getOptions :: "env \<Rightarrow> (string \<rightharpoonup> jsval)" where
  "getOptions e =
     [''httpOnly'' \<mapsto> JBool True,
      ''secure'' \<mapsto> JBool (NODE_ENV e = Some ''production''),
      ''sameSite'' \<mapsto> JStr ''strict'',
      ''maxAge'' \<mapsto> JNum (15 * 60 * 1000)]"

text \<open>\<open>{ ...cookies.getOptions(), ...options }\<close> is \<open>getOptions e ++ options\<close>.\<close>

definition cookies_set ::
  "env \<Rightarrow> response \<Rightarrow> string \<Rightarrow> token \<Rightarrow> (string \<rightharpoonup> jsval) \<Rightarrow> response" where
  "cookies_set e res name v options =
     res\<lparr>cookie_calls := cookie_calls res @ [Cookie name v (getOptions e ++ options)]\<rparr>"

definition cookies_clear ::
  "env \<Rightarrow> response \<Rightarrow> string \<Rightarrow> (string \<rightharpoonup> jsval) \<Rightarrow> response" where
  "cookies_clear e res name options =
     res\<lparr>cookie_calls := cookie_calls res @ [ClearCookie name (getOptions e ++ options)]\<rparr>"

text \<open>
  \<open>import req from 'express/lib/request.js'\<close>: the module-level \<open>req\<close> of cookies.js is
  Express's request prototype, an object on which no \<open>cookies\<close> property is defined.
\<close>

definition express_request :: request where
  "express_request = \<lparr>cookies = None, user = None\<rparr>"

text \<open>
  \<open>get: (res, name) => req.cookies[name]\<close> reads the imported \<open>req\<close>, not an argument.
  Indexing \<open>undefined\<close> throws a TypeError.
\<close>

definition cookies_get :: "response \<Rightarrow> string \<Rightarrow> js_error + token option" where
  "cookies_get res name =
     (case cookies express_request of
        None \<Rightarrow> Inl (TypeError ''Cannot read properties of undefined'')
      | Some c \<Rightarrow> Inr (c name))"

section \<open>The users table\<close>

record user_row =
  row_id :: int
  row_name :: string
  row_email :: string
  row_password :: string
  row_role :: string
  row_created_at :: nat
  row_updated_at :: nat

text \<open>The columns every query of the users service returns: all but the password.\<close>

record user_view =
  view_id :: int
  view_email :: string
  view_name :: string
  view_role :: string
  view_created_at :: nat
  view_updated_at :: nat

definition returning :: "user_row \<Rightarrow> user_view" where
  "returning u =
     \<lparr>view_id = row_id u, view_email = row_email u, view_name = row_name u,
      view_role = row_role u, view_created_at = row_created_at u,
      view_updated_at = row_updated_at u\<rparr>"

section \<open>Outcomes of a handler\<close>

datatype reply =
    ErrorBody string
  | ValidationFailed
  | UserBody string user_view

text \<open>
  A middleware or controller ends by calling \<open>next()\<close>, \<open>next(e)\<close> or by sending a
  response with a status code and a JSON body.
\<close>

datatype outcome = Next | NextError js_error | Respond nat reply

section \<open>middleware/auth.middleware.js\<close>

text \<open>\<open>req.cookies?.token\<close>\<close>

definition cookie_token :: "request \<Rightarrow> token option" where
  "cookie_token req = (case cookies req of None \<Rightarrow> None | Some c \<Rightarrow> c ''token'')"

definition attachUserFromToken :: "env \<Rightarrow> nat \<Rightarrow> request \<Rightarrow> request \<times> outcome" where
  "attachUserFromToken e now req =
     (case cookie_token req of
        None \<Rightarrow> (req\<lparr>user := None\<rparr>, Next)
      | Some t \<Rightarrow>
          if token_falsy t then (req\<lparr>user := None\<rparr>, Next)
          else
            (case jwttoken_verify e t now of
               Inl err \<Rightarrow> (req\<lparr>user := None\<rparr>, Next)
             | Inr d \<Rightarrow>
                 (req\<lparr>user := Some \<lparr>id_of = id_of d, email_of = email_of d,
                                     role_of = js_or (role_of d) (JStr ''user'')\<rparr>\<rparr>,
                  Next)))"

definition requireAuth :: "request \<Rightarrow> outcome" where
  "requireAuth req =
     (case user req of
        None \<Rightarrow> Respond 401 (ErrorBody ''Authentication required'')
      | Some u \<Rightarrow> Next)"

text \<open>\<open>allowedRoles.includes(req.user.role)\<close>\<close>

definition requireRoles :: "string list \<Rightarrow> request \<Rightarrow> outcome" where
  "requireRoles allowedRoles req =
     (case user req of
        None \<Rightarrow> Respond 401 (ErrorBody ''Authentication required'')
      | Some u \<Rightarrow>
          if role_of u \<notin> set (map JStr allowedRoles)
          then Respond 403 (ErrorBody ''Forbidden: insufficient permissions'')
          else Next)"

section \<open>services/users.service.js\<close>

subsection \<open>The query layer\<close>

text \<open>
  The table is the list of its rows. An \<open>UPDATE ... SET\<close> assigns the given columns, in
  order, on every row the \<open>WHERE\<close> clause selects. Each column takes values of its own
  type; an \<open>undefined\<close> value is skipped; anything else makes the driver reject the
  statement. \<open>schema_ok\<close> stands for the constraints of the table declaration
  (models/user.model.js, not among the sources): a statement whose result violates them
  is rejected and leaves the table as it was.
\<close>

fun assign :: "user_row \<Rightarrow> string \<times> jsval \<Rightarrow> user_row option" where
  "assign u (col, JStr s) =
     (if col = ''name'' then Some (u\<lparr>row_name := s\<rparr>)
      else if col = ''email'' then Some (u\<lparr>row_email := s\<rparr>)
      else if col = ''password'' then Some (u\<lparr>row_password := s\<rparr>)
      else if col = ''role'' then Some (u\<lparr>row_role := s\<rparr>)
      else None)"
| "assign u (col, JNum n) = (if col = ''id'' then Some (u\<lparr>row_id := n\<rparr>) else None)"
| "assign u (col, JDate t) =
     (if col = ''created_at'' then Some (u\<lparr>row_created_at := t\<rparr>)
      else if col = ''updated_at'' then Some (u\<lparr>row_updated_at := t\<rparr>)
      else None)"
| "assign u (col, JUndefined) = Some u"
| "assign u (col, JNull) = None"
| "assign u (col, JBool b) = None"

fun assign_all :: "user_row \<Rightarrow> (string \<times> jsval) list \<Rightarrow> user_row option" where
  "assign_all u [] = Some u"
| "assign_all u (a # sets) =
     (case assign u a of None \<Rightarrow> None | Some u' \<Rightarrow> assign_all u' sets)"

text \<open>The new table and the rows that were updated, or \<open>None\<close> when an assignment is rejected.\<close>

fun update_rows ::
  "user_row list \<Rightarrow> int \<Rightarrow> (string \<times> jsval) list \<Rightarrow> (user_row list \<times> user_row list) option" where
  "update_rows [] i sets = Some ([], [])"
| "update_rows (u # us) i sets =
     (case update_rows us i sets of
        None \<Rightarrow> None
      | Some (tbl, upd) \<Rightarrow>
          if row_id u = i then
            (case assign_all u sets of
               None \<Rightarrow> None
             | Some u' \<Rightarrow> Some (u' # tbl, u' # upd))
          else Some (u # tbl, upd))"

definition db_update ::
  "(user_row list \<Rightarrow> bool) \<Rightarrow> user_row list \<Rightarrow> int \<Rightarrow> (string \<times> jsval) list
     \<Rightarrow> js_error + (user_row list \<times> user_row list)" where
  "db_update schema_ok db i sets =
     (case update_rows db i sets of
        None \<Rightarrow> Inl DatabaseError
      | Some (tbl, upd) \<Rightarrow> if schema_ok tbl then Inr (tbl, upd) else Inl DatabaseError)"

subsection \<open>updateUser and deleteUser\<close>

definition allowedFields :: "string list" where
  "allowedFields = [''name'', ''email'', ''role'']"

text \<open>
  The loop \<open>for (const field of allowedFields)\<close>: a field is copied when
  \<open>hasOwnProperty(updates, field)\<close>. \<open>updateData\<close> keeps its keys in insertion order.
\<close>

fun copy_allowed ::
  "string list \<Rightarrow> (string \<rightharpoonup> jsval) \<Rightarrow> (string \<times> jsval) list \<Rightarrow> (string \<times> jsval) list" where
  "copy_allowed [] updates updateData = updateData"
| "copy_allowed (field # remaining) updates updateData =
     (case updates field of
        Some v \<Rightarrow> copy_allowed remaining updates (updateData @ [(field, v)])
      | None \<Rightarrow> copy_allowed remaining updates updateData)"

definition updateUserService ::
  "(user_row list \<Rightarrow> bool) \<Rightarrow> nat \<Rightarrow> user_row list \<Rightarrow> int \<Rightarrow> (string \<rightharpoonup> jsval)
     \<Rightarrow> (js_error + user_view) \<times> user_row list" where
  "updateUserService schema_ok now db i updates =
     (case filter (\<lambda>u. row_id u = i) db of
        [] \<Rightarrow> (Inl (Error ''User not found''), db)
      | existingUser # others \<Rightarrow>
          (let updateData = copy_allowed allowedFields updates []
           in if length updateData = 0 then (Inr (returning existingUser), db)
              else
                (case db_update schema_ok db i (updateData @ [(''updated_at'', JDate now)]) of
                   Inl e \<Rightarrow> (Inl e, db)
                 | Inr (db', []) \<Rightarrow>
                     (Inl (TypeError ''Cannot read properties of undefined''), db')
                 | Inr (db', updatedUser # rest) \<Rightarrow> (Inr (returning updatedUser), db'))))"

definition deleteUserService ::
  "user_row list \<Rightarrow> int \<Rightarrow> (js_error + user_view) \<times> user_row list" where
  "deleteUserService db i =
     (let db' = filter (\<lambda>u. row_id u \<noteq> i) db
      in case filter (\<lambda>u. row_id u = i) db of
           [] \<Rightarrow> (Inl (Error ''User not found''), db')
         | deletedUser # rest \<Rightarrow> (Inr (returning deletedUser), db'))"

section \<open>controllers/users.controller.js\<close>

text \<open>
  The Zod schemas of validations/users.validation.js are not among the sources; the
  controllers take what \<open>userIdSchema.safeParse(req.params)\<close> and
  \<open>updateUserSchema.safeParse(req.body)\<close> yield as \<open>paramsResult\<close> and \<open>bodyResult\<close>:
  the parsed data, or \<open>None\<close> when validation fails. The catch block answers 404 when
  the message is \<open>'User not found'\<close> and passes any other error to \<open>next\<close>.
\<close>

definition on_service_error :: "js_error \<Rightarrow> outcome" where
  "on_service_error e =
     (if has_message e ''User not found''
      then Respond 404 (ErrorBody ''User not found'')
      else NextError e)"

definition updateUser ::
  "int option \<Rightarrow> (string \<rightharpoonup> jsval) option \<Rightarrow> (user_row list \<Rightarrow> bool) \<Rightarrow> nat
     \<Rightarrow> user_row list \<Rightarrow> request \<Rightarrow> outcome \<times> user_row list" where
  "updateUser paramsResult bodyResult schema_ok now db req =
     (case paramsResult of
        None \<Rightarrow> (Respond 400 ValidationFailed, db)
      | Some i \<Rightarrow>
     (case bodyResult of
        None \<Rightarrow> (Respond 400 ValidationFailed, db)
      | Some updates \<Rightarrow>
     (case user req of
        None \<Rightarrow> (Respond 401 (ErrorBody ''Authentication required''), db)
      | Some u \<Rightarrow>
          (let authenticatedUserId = id_of u;
               isAdmin = (role_of u = JStr ''admin'');
               isSelf = (authenticatedUserId = i)
           in if \<not> isSelf \<and> \<not> isAdmin
              then (Respond 403 (ErrorBody ''Not authorized to update this user''), db)
              else if truthy (js_get updates ''role'') \<and> \<not> isAdmin
              then (Respond 403 (ErrorBody ''Only admin users can change roles''), db)
              else
                (case updateUserService schema_ok now db i updates of
                   (Inr updatedUser, db') \<Rightarrow>
                     (Respond 200 (UserBody ''User updated successfully'' updatedUser), db')
                 | (Inl e, db') \<Rightarrow> (on_service_error e, db'))))))"

definition deleteUser ::
  "int option \<Rightarrow> user_row list \<Rightarrow> request \<Rightarrow> outcome \<times> user_row list" where
  "deleteUser validationResult db req =
     (case validationResult of
        None \<Rightarrow> (Respond 400 ValidationFailed, db)
      | Some i \<Rightarrow>
     (case user req of
        None \<Rightarrow> (Respond 401 (ErrorBody ''Authentication required''), db)
      | Some u \<Rightarrow>
          (let authenticatedUserId = id_of u;
               isAdmin = (role_of u = JStr ''admin'');
               isSelf = (authenticatedUserId = i)
           in if \<not> isSelf \<and> \<not> isAdmin
              then (Respond 403 (ErrorBody ''Not authorized to delete this user''), db)
              else
                (case deleteUserService db i of
                   (Inr deletedUser, db') \<Rightarrow>
                     (Respond 200 (UserBody ''User deleted successfully'' deletedUser), db')
                 | (Inl e, db') \<Rightarrow> (on_service_error e, db')))))"

section \<open>routes/users.routes.js\<close>

text \<open>
  \<open>router.put('/:id', requireAuth, updateUser)\<close> and
  \<open>router.delete('/:id', requireAuth, requireRoles('admin'), deleteUser)\<close>: the handlers of
  a route run in order, each one only when its predecessor called \<open>next()\<close>.
\<close>

definition router_put ::
  "int option \<Rightarrow> (string \<rightharpoonup> jsval) option \<Rightarrow> (user_row list \<Rightarrow> bool) \<Rightarrow> nat
     \<Rightarrow> user_row list \<Rightarrow> request \<Rightarrow> outcome \<times> user_row list" where
  "router_put paramsResult bodyResult schema_ok now db req =
     (case requireAuth req of
        Next \<Rightarrow> updateUser paramsResult bodyResult schema_ok now db req
      | out \<Rightarrow> (out, db))"

definition router_delete ::
  "int option \<Rightarrow> user_row list \<Rightarrow> request \<Rightarrow> outcome \<times> user_row list" where
  "router_delete validationResult db req =
     (case requireAuth req of
        Next \<Rightarrow>
          (case requireRoles [''admin''] req of
             Next \<Rightarrow> deleteUser validationResult db req
           | out \<Rightarrow> (out, db))
      | out \<Rightarrow> (out, db))"

section \<open>Admission control\<close>

text \<open>
  Modelled from the spec: middleware/security.middleware.js and config/arcjet.js are not
  among the sources. What follows is the spec's RateLimitTier table, RateWindowCounter,
  RoleRateLimiter.check and AdmissionController, in the spec's words. Times are in
  seconds. The shield and bot detectors are pluggable capabilities, taken as parameters.
\<close>

datatype tier = tier_guest | tier_user | tier_admin

text \<open>Modelled from the spec: \<open>{guest: 5/min, user: 10/min, admin: 20/min}\<close>.\<close>

fun max_count :: "tier \<Rightarrow> nat" where
  "max_count tier_guest = 5"
| "max_count tier_user = 10"
| "max_count tier_admin = 20"

text \<open>Modelled from the spec: the window length, one minute.\<close>

definition window_length :: nat where
  "window_length = 60"

text \<open>
  Modelled from the spec: the tier is selected from the resolved identity's role; absence
  of identity means guest.
\<close>

definition tier_for :: "identity option \<Rightarrow> tier" where
  "tier_for idt =
     (case idt of
        None \<Rightarrow> tier_guest
      | Some u \<Rightarrow>
          if role_of u = JStr ''admin'' then tier_admin
          else if role_of u = JStr ''user'' then tier_user
          else tier_guest)"

text \<open>
  Modelled from the spec: the counter key is the identity's subject id when
  authenticated, else the caller's IP.
\<close>

datatype rate_key = by_subject int | by_ip string

definition key_for :: "identity option \<Rightarrow> string \<Rightarrow> rate_key" where
  "key_for idt ip = (case idt of None \<Rightarrow> by_ip ip | Some u \<Rightarrow> by_subject (id_of u))"

record window_counter =
  window_start :: nat
  count :: nat

record check_result =
  allowed :: bool
  remaining :: nat

text \<open>
  Modelled from the spec: when the window's elapsed time exceeds its length the counter
  resets to zero on the next access; a request increments the key's count; the request
  is denied when the post-increment count exceeds the tier's maximum, and the increment
  is kept either way.
\<close>

definition check ::
  "(rate_key \<rightharpoonup> window_counter) \<Rightarrow> nat \<Rightarrow> rate_key \<Rightarrow> tier
     \<Rightarrow> check_result \<times> (rate_key \<rightharpoonup> window_counter)" where
  "check store now k t =
     (let fresh = \<lparr>window_start = now, count = 0\<rparr>;
          c = (case store k of
                 None \<Rightarrow> fresh
               | Some c0 \<Rightarrow> if now - window_start c0 > window_length then fresh else c0);
          n = count c + 1
      in (\<lparr>allowed = (n \<le> max_count t), remaining = max_count t - n\<rparr>,
          store(k \<mapsto> c\<lparr>count := n\<rparr>)))"

datatype reason = reason_none | reason_bot | reason_shield | reason_rate_limit

record decision =
  allow :: bool
  reason :: reason

text \<open>
  Modelled from the spec: shield check, then bot check, then rate limit check, stopping at
  the first deny.
\<close>

definition admit ::
  "(request \<Rightarrow> bool) \<Rightarrow> (request \<Rightarrow> bool) \<Rightarrow> (rate_key \<rightharpoonup> window_counter) \<Rightarrow> nat \<Rightarrow> string
     \<Rightarrow> request \<Rightarrow> decision \<times> (rate_key \<rightharpoonup> window_counter)" where
  "admit shield_trips bot_trips store now ip req =
     (if shield_trips req then (\<lparr>allow = False, reason = reason_shield\<rparr>, store)
      else if bot_trips req then (\<lparr>allow = False, reason = reason_bot\<rparr>, store)
      else
        (case check store now (key_for (user req) ip) (tier_for (user req)) of
           (r, store') \<Rightarrow>
             if allowed r then (\<lparr>allow = True, reason = reason_none\<rparr>, store')
             else (\<lparr>allow = False, reason = reason_rate_limit\<rparr>, store')))"

text \<open>A sequence of requests, each with its arrival time and caller IP, decided in order.\<close>

fun admit_all ::
  "(request \<Rightarrow> bool) \<Rightarrow> (request \<Rightarrow> bool) \<Rightarrow> (rate_key \<rightharpoonup> window_counter)
     \<Rightarrow> (nat \<times> string \<times> request) list \<Rightarrow> decision list" where
  "admit_all shield_trips bot_trips store [] = []"
| "admit_all shield_trips bot_trips store ((now, ip, req) # rs) =
     (case admit shield_trips bot_trips store now ip req of
        (d, store') \<Rightarrow> d # admit_all shield_trips bot_trips store' rs)"

section \<open>Identity resolution\<close>

text \<open>
  C1. A request without a session cookie and a request whose cookie fails verification
  (for whatever reason) both leave \<open>attachUserFromToken\<close> with no identity attached and
  with \<open>next()\<close> called; \<open>requireAuth\<close> and \<open>requireRoles\<close> answer the two requests
  identically.
\<close>

theorem invalid_cookie_is_guest:
  assumes "cookie_token req_absent = None"
    and "cookie_token req_invalid = Some t"
    and "isl (jwttoken_verify e t now)"
  shows "attachUserFromToken e now req_absent = (req_absent\<lparr>user := None\<rparr>, Next)
       \<and> attachUserFromToken e now req_invalid = (req_invalid\<lparr>user := None\<rparr>, Next)
       \<and> requireAuth (fst (attachUserFromToken e now req_absent))
           = Respond 401 (ErrorBody ''Authentication required'')
       \<and> requireAuth (fst (attachUserFromToken e now req_invalid))
           = requireAuth (fst (attachUserFromToken e now req_absent))
       \<and> requireRoles allowedRoles (fst (attachUserFromToken e now req_invalid))
           = requireRoles allowedRoles (fst (attachUserFromToken e now req_absent))"
proof -
  have absent: "attachUserFromToken e now req_absent = (req_absent\<lparr>user := None\<rparr>, Next)"
    using assms(1) by (simp add: attachUserFromToken_def)
  have invalid: "attachUserFromToken e now req_invalid = (req_invalid\<lparr>user := None\<rparr>, Next)"
    using assms(2,3) by (auto simp: attachUserFromToken_def split: sum.splits)
  show ?thesis
    unfolding absent invalid by (simp add: requireAuth_def requireRoles_def)
qed

theorem invalid_cookie_is_guest_witness:
  "attachUserFromToken \<lparr>NODE_ENV = None, JWT_SECRET_var = None\<rparr> 100
      \<lparr>cookies = Some (map_of [(''token'', Garbage ''abc'')]), user = None\<rparr>
    = (\<lparr>cookies = Some (map_of [(''token'', Garbage ''abc'')]), user = None\<rparr>
         \<lparr>user := None\<rparr>, Next)
   \<and> requireAuth (fst (attachUserFromToken \<lparr>NODE_ENV = None, JWT_SECRET_var = None\<rparr> 100
        \<lparr>cookies = Some (map_of [(''token'', Garbage ''abc'')]), user = None\<rparr>))
    = requireAuth (fst (attachUserFromToken \<lparr>NODE_ENV = None, JWT_SECRET_var = None\<rparr> 100
        \<lparr>cookies = None, user = None\<rparr>))
   \<and> requireRoles [''admin''] (fst (attachUserFromToken \<lparr>NODE_ENV = None, JWT_SECRET_var = None\<rparr> 100
        \<lparr>cookies = Some (map_of [(''token'', Garbage ''abc'')]), user = None\<rparr>))
    = requireRoles [''admin''] (fst (attachUserFromToken \<lparr>NODE_ENV = None, JWT_SECRET_var = None\<rparr> 100
        \<lparr>cookies = None, user = None\<rparr>))"
proof -
  let ?e = "\<lparr>NODE_ENV = None, JWT_SECRET_var = None\<rparr>"
  let ?a = "\<lparr>cookies = None, user = None\<rparr>"
  let ?i = "\<lparr>cookies = Some (map_of [(''token'', Garbage ''abc'')]), user = None\<rparr>"
  have h1: "cookie_token ?a = None" by (simp add: cookie_token_def)
  have h2: "cookie_token ?i = Some (Garbage ''abc'')" by (simp add: cookie_token_def)
  have h3: "isl (jwttoken_verify ?e (Garbage ''abc'') 100)" by (simp add: jwttoken_verify_def)
  show ?thesis
    using invalid_cookie_is_guest [OF h1 h2 h3, where allowedRoles = "[''admin'']"] by blast
qed

section \<open>Token service\<close>

text \<open>
  C2. For every identity \<open>I\<close>, the token \<open>jwttoken.sign\<close> produces for \<open>I\<close> at time \<open>now\<close>
  verifies at any time before its expiry, and the verified payload carries the claims of
  \<open>I\<close> unchanged (next to \<open>iat\<close> and \<open>exp\<close>).
\<close>

theorem verify_sign_roundtrip:
  assumes "now' < now + JWT_EXPIRES_IN"
  shows "\<exists>t. jwttoken_sign e I now = Inr t
           \<and> jwttoken_verify e t now'
              = Inr \<lparr>id_of = id_of I, email_of = email_of I, role_of = role_of I,
                     iat = now, exp = now + JWT_EXPIRES_IN\<rparr>
           \<and> map_sum id claims_of (jwttoken_verify e t now') = Inr I"
proof -
  have ne: "JWT_SECRET e \<noteq> []"
    by (simp add: JWT_SECRET_def split: option.splits)
  let ?d = "\<lparr>id_of = id_of I, email_of = email_of I, role_of = role_of I,
             iat = now, exp = now + JWT_EXPIRES_IN\<rparr>"
  have s: "jwttoken_sign e I now = Inr (Signed ?d (JWT_SECRET e))"
    using ne by (simp add: jwttoken_sign_def jwt_sign_def)
  have v: "jwttoken_verify e (Signed ?d (JWT_SECRET e)) now' = Inr ?d"
    using assms by (simp add: jwttoken_verify_def)
  have c: "claims_of ?d = I" by (simp add: claims_of_def)
  show ?thesis using s v c by simp
qed

theorem verify_sign_roundtrip_witness:
  "(100::nat) < 50 + JWT_EXPIRES_IN \<and>
   (\<exists>t. jwttoken_sign \<lparr>NODE_ENV = None, JWT_SECRET_var = Some ''k''\<rparr>
           \<lparr>id_of = 7, email_of = ''a@b.c'', role_of = JStr ''user''\<rparr> 50 = Inr t
      \<and> map_sum id claims_of (jwttoken_verify \<lparr>NODE_ENV = None, JWT_SECRET_var = Some ''k''\<rparr> t 100)
          = Inr \<lparr>id_of = 7, email_of = ''a@b.c'', role_of = JStr ''user''\<rparr>)"
proof -
  have h: "(100::nat) < 50 + JWT_EXPIRES_IN" by (simp add: JWT_EXPIRES_IN_def)
  show ?thesis
    using h verify_sign_roundtrip [OF h, where e = "\<lparr>NODE_ENV = None, JWT_SECRET_var = Some ''k''\<rparr>"
        and I = "\<lparr>id_of = 7, email_of = ''a@b.c'', role_of = JStr ''user''\<rparr>"]
    by blast
qed

text \<open>
  C3, as stated, fails: \<open>jwt.verify\<close> tells an expired token from a malformed one, but
  \<open>jwttoken.verify\<close> catches either error and throws the same fresh \<open>Error\<close>, so the two
  failures are equal in its result.
\<close>

theorem verify_kinds_collapse_counterexample:
  "jwt_verify
     (Signed \<lparr>id_of = 7, email_of = ''a@b.c'', role_of = JStr ''user'', iat = 10, exp = 20\<rparr>
        (JWT_SECRET \<lparr>NODE_ENV = None, JWT_SECRET_var = None\<rparr>))
     (JWT_SECRET \<lparr>NODE_ENV = None, JWT_SECRET_var = None\<rparr>) 30 = Inl TokenExpiredError
   \<and> jwt_verify (Garbage ''not-a-jwt'') (JWT_SECRET \<lparr>NODE_ENV = None, JWT_SECRET_var = None\<rparr>) 30
       = Inl JsonWebTokenError
   \<and> jwttoken_verify \<lparr>NODE_ENV = None, JWT_SECRET_var = None\<rparr>
        (Signed \<lparr>id_of = 7, email_of = ''a@b.c'', role_of = JStr ''user'', iat = 10, exp = 20\<rparr>
           (JWT_SECRET \<lparr>NODE_ENV = None, JWT_SECRET_var = None\<rparr>)) 30
       = jwttoken_verify \<lparr>NODE_ENV = None, JWT_SECRET_var = None\<rparr> (Garbage ''not-a-jwt'') 30"
  by (simp add: jwttoken_verify_def)

text \<open>
  C3, amended. For every token whose \<open>exp\<close> is in the past, \<open>jwttoken.verify\<close> fails, and it
  fails with \<open>Error('failed to authenticate token')\<close>, which is also its failure for a
  malformed token and the only error it ever throws.
\<close>

theorem verify_failure_is_generic:
  "(exp d < now \<longrightarrow>
      jwttoken_verify e (Signed d k) now = Inl (Error ''failed to authenticate token''))
   \<and> jwttoken_verify e (Garbage s) now = Inl (Error ''failed to authenticate token'')
   \<and> (\<forall>t err. jwttoken_verify e t now = Inl err \<longrightarrow> err = Error ''failed to authenticate token'')"
  by (auto simp: jwttoken_verify_def split: sum.splits)

theorem verify_failure_is_generic_witness:
  "exp \<lparr>id_of = 7, email_of = ''a@b.c'', role_of = JStr ''user'', iat = 10, exp = 20\<rparr> < (30::nat)
   \<and> jwttoken_verify \<lparr>NODE_ENV = None, JWT_SECRET_var = None\<rparr>
        (Signed \<lparr>id_of = 7, email_of = ''a@b.c'', role_of = JStr ''user'', iat = 10, exp = 20\<rparr>
           ''your-secret-key-please-change-in-production'') 30
       = Inl (Error ''failed to authenticate token'')"
  using verify_failure_is_generic [where now = 30 and e = "\<lparr>NODE_ENV = None, JWT_SECRET_var = None\<rparr>"
     and d = "\<lparr>id_of = 7, email_of = ''a@b.c'', role_of = JStr ''user'', iat = 10, exp = 20\<rparr>"
     and k = "''your-secret-key-please-change-in-production''"]
  by simp

section \<open>Route guards and ownership\<close>

text \<open>
  What the update route guarantees for an authenticated caller \<open>C\<close> and target \<open>T\<close> (valid
  id and body): when \<open>C\<close> is neither \<open>T\<close> nor an admin the answer is 403; when the role
  in the payload is truthy and \<open>C\<close> is not an admin the answer is 403 as well, even for
  \<open>C = T\<close>; an admin is let through to the service in both cases and is never answered
  403. A denied request leaves the table as it was.
\<close>

theorem update_self_or_admin:
  assumes "user req = Some C"
  shows "(id_of C \<noteq> T \<and> role_of C \<noteq> JStr ''admin'' \<longrightarrow>
            router_put (Some T) (Some updates) schema_ok now db req
              = (Respond 403 (ErrorBody ''Not authorized to update this user''), db))
       \<and> (updates ''role'' = Some v \<and> truthy v \<and> role_of C \<noteq> JStr ''admin'' \<longrightarrow>
            router_put (Some T) (Some updates) schema_ok now db req
              = (Respond 403 (ErrorBody (if id_of C = T then ''Only admin users can change roles''
                                         else ''Not authorized to update this user'')), db))
       \<and> (role_of C = JStr ''admin'' \<longrightarrow>
            router_put (Some T) (Some updates) schema_ok now db req
              = (case updateUserService schema_ok now db T updates of
                   (Inr updatedUser, db') \<Rightarrow>
                     (Respond 200 (UserBody ''User updated successfully'' updatedUser), db')
                 | (Inl err, db') \<Rightarrow> (on_service_error err, db'))
            \<and> (\<forall>b. fst (router_put (Some T) (Some updates) schema_ok now db req) \<noteq> Respond 403 b))"
  using assms
  by (auto simp: router_put_def requireAuth_def updateUser_def Let_def on_service_error_def
        js_get_def
      split: prod.splits sum.splits)

theorem update_self_or_admin_witness:
  "router_put (Some 9) (Some (map_of [(''name'', JStr ''Zed'')])) (distinct \<circ> map row_email) 50
      [\<lparr>row_id = 9, row_name = ''Bo'', row_email = ''b@x.y'', row_password = ''h9'',
        row_role = ''user'', row_created_at = 3, row_updated_at = 2\<rparr>]
      \<lparr>cookies = None, user = Some \<lparr>id_of = 7, email_of = ''a@x.y'', role_of = JStr ''user''\<rparr>\<rparr>
     = (Respond 403 (ErrorBody ''Not authorized to update this user''),
        [\<lparr>row_id = 9, row_name = ''Bo'', row_email = ''b@x.y'', row_password = ''h9'',
          row_role = ''user'', row_created_at = 3, row_updated_at = 2\<rparr>])
   \<and> router_put (Some 7) (Some (map_of [(''role'', JStr ''admin'')])) (distinct \<circ> map row_email) 50
      [\<lparr>row_id = 7, row_name = ''Al'', row_email = ''a@x.y'', row_password = ''h7'',
        row_role = ''user'', row_created_at = 3, row_updated_at = 2\<rparr>]
      \<lparr>cookies = None, user = Some \<lparr>id_of = 7, email_of = ''a@x.y'', role_of = JStr ''user''\<rparr>\<rparr>
     = (Respond 403 (ErrorBody ''Only admin users can change roles''),
        [\<lparr>row_id = 7, row_name = ''Al'', row_email = ''a@x.y'', row_password = ''h7'',
          row_role = ''user'', row_created_at = 3, row_updated_at = 2\<rparr>])
   \<and> router_put (Some 9) (Some (map_of [(''role'', JStr ''admin'')])) (distinct \<circ> map row_email) 50
      [\<lparr>row_id = 9, row_name = ''Bo'', row_email = ''b@x.y'', row_password = ''h9'',
        row_role = ''user'', row_created_at = 3, row_updated_at = 2\<rparr>]
      \<lparr>cookies = None, user = Some \<lparr>id_of = 2, email_of = ''r@x.y'', role_of = JStr ''admin''\<rparr>\<rparr>
     = (Respond 200 (UserBody ''User updated successfully''
          \<lparr>view_id = 9, view_email = ''b@x.y'', view_name = ''Bo'', view_role = ''admin'',
            view_created_at = 3, view_updated_at = 50\<rparr>),
        [\<lparr>row_id = 9, row_name = ''Bo'', row_email = ''b@x.y'', row_password = ''h9'',
          row_role = ''admin'', row_created_at = 3, row_updated_at = 50\<rparr>])"
proof -
  let ?ok = "distinct \<circ> map row_email"
  let ?r9 = "\<lparr>row_id = 9, row_name = ''Bo'', row_email = ''b@x.y'', row_password = ''h9'',
        row_role = ''user'', row_created_at = 3, row_updated_at = 2\<rparr>"
  let ?r7 = "\<lparr>row_id = 7, row_name = ''Al'', row_email = ''a@x.y'', row_password = ''h7'',
        row_role = ''user'', row_created_at = 3, row_updated_at = 2\<rparr>"
  let ?A = "\<lparr>id_of = 7, email_of = ''a@x.y'', role_of = JStr ''user''\<rparr>"
  let ?R = "\<lparr>id_of = 2, email_of = ''r@x.y'', role_of = JStr ''admin''\<rparr>"
  let ?reqA = "\<lparr>cookies = None, user = Some ?A\<rparr>"
  let ?reqR = "\<lparr>cookies = None, user = Some ?R\<rparr>"
  have uA: "user ?reqA = Some ?A" by simp
  have uR: "user ?reqR = Some ?R" by simp
  have other: "router_put (Some 9) (Some (map_of [(''name'', JStr ''Zed'')])) ?ok 50 [?r9] ?reqA
     = (Respond 403 (ErrorBody ''Not authorized to update this user''), [?r9])"
    using update_self_or_admin [OF uA, where T = 9 and updates = "map_of [(''name'', JStr ''Zed'')]"
        and schema_ok = ?ok and now = 50 and db = "[?r9]"]
    by simp
  have self: "router_put (Some 7) (Some (map_of [(''role'', JStr ''admin'')])) ?ok 50 [?r7] ?reqA
     = (Respond 403 (ErrorBody ''Only admin users can change roles''), [?r7])"
    using update_self_or_admin [OF uA, where T = 7 and updates = "map_of [(''role'', JStr ''admin'')]"
        and v = "JStr ''admin''" and schema_ok = ?ok and now = 50 and db = "[?r7]"]
    by simp
  have service: "updateUserService ?ok 50 [?r9] 9 (map_of [(''role'', JStr ''admin'')])
     = (Inr \<lparr>view_id = 9, view_email = ''b@x.y'', view_name = ''Bo'', view_role = ''admin'',
            view_created_at = 3, view_updated_at = 50\<rparr>,
        [\<lparr>row_id = 9, row_name = ''Bo'', row_email = ''b@x.y'', row_password = ''h9'',
          row_role = ''admin'', row_created_at = 3, row_updated_at = 50\<rparr>])"
    by (simp add: updateUserService_def allowedFields_def db_update_def returning_def)
  have through: "router_put (Some 9) (Some (map_of [(''role'', JStr ''admin'')])) ?ok 50 [?r9] ?reqR
     = (case updateUserService ?ok 50 [?r9] 9 (map_of [(''role'', JStr ''admin'')]) of
          (Inr updatedUser, db') \<Rightarrow>
            (Respond 200 (UserBody ''User updated successfully'' updatedUser), db')
        | (Inl err, db') \<Rightarrow> (on_service_error err, db'))"
    using update_self_or_admin [OF uR, where T = 9 and updates = "map_of [(''role'', JStr ''admin'')]"
        and schema_ok = ?ok and now = 50 and db = "[?r9]"]
    by simp
  have admin: "router_put (Some 9) (Some (map_of [(''role'', JStr ''admin'')])) ?ok 50 [?r9] ?reqR
     = (Respond 200 (UserBody ''User updated successfully''
          \<lparr>view_id = 9, view_email = ''b@x.y'', view_name = ''Bo'', view_role = ''admin'',
            view_created_at = 3, view_updated_at = 50\<rparr>),
        [\<lparr>row_id = 9, row_name = ''Bo'', row_email = ''b@x.y'', row_password = ''h9'',
          row_role = ''admin'', row_created_at = 3, row_updated_at = 50\<rparr>])"
    unfolding through service by simp
  show ?thesis using other self admin by blast
qed


text \<open>
  C5, as stated, fails: the delete route runs \<open>requireRoles('admin')\<close> before the
  controller, so a non-admin user deleting their own record is answered 403 by the role
  guard.
\<close>

theorem self_delete_denied_counterexample:
  "router_delete (Some 7)
     [\<lparr>row_id = 7, row_name = ''A'', row_email = ''a@b.c'', row_password = ''h'',
       row_role = ''user'', row_created_at = 1, row_updated_at = 1\<rparr>]
     \<lparr>cookies = None, user = Some \<lparr>id_of = 7, email_of = ''a@b.c'', role_of = JStr ''user''\<rparr>\<rparr>
   = (Respond 403 (ErrorBody ''Forbidden: insufficient permissions''),
      [\<lparr>row_id = 7, row_name = ''A'', row_email = ''a@b.c'', row_password = ''h'',
        row_role = ''user'', row_created_at = 1, row_updated_at = 1\<rparr>])"
  by (simp add: router_delete_def requireAuth_def requireRoles_def)

text \<open>
  C5, amended. A delete of user \<open>T\<close> by an authenticated caller \<open>C\<close> proceeds to the
  service exactly when \<open>C\<close>'s role is admin; every other caller, one deleting their own
  record included, is answered 403 by the role guard of the route. The self-or-admin
  check of the controller stands behind that guard.
\<close>

theorem delete_is_admin_only:
  assumes "user req = Some C"
  shows "(role_of C \<noteq> JStr ''admin'' \<longrightarrow>
            router_delete (Some T) db req
              = (Respond 403 (ErrorBody ''Forbidden: insufficient permissions''), db))
       \<and> (role_of C = JStr ''admin'' \<longrightarrow>
            router_delete (Some T) db req
              = (case deleteUserService db T of
                   (Inr deletedUser, db') \<Rightarrow>
                     (Respond 200 (UserBody ''User deleted successfully'' deletedUser), db')
                 | (Inl err, db') \<Rightarrow> (on_service_error err, db')))
       \<and> deleteUser (Some T) db req
           = (if id_of C \<noteq> T \<and> role_of C \<noteq> JStr ''admin''
              then (Respond 403 (ErrorBody ''Not authorized to delete this user''), db)
              else (case deleteUserService db T of
                   (Inr deletedUser, db') \<Rightarrow>
                     (Respond 200 (UserBody ''User deleted successfully'' deletedUser), db')
                 | (Inl err, db') \<Rightarrow> (on_service_error err, db')))"
  using assms
  by (auto simp: router_delete_def requireAuth_def requireRoles_def deleteUser_def Let_def
      split: prod.splits sum.splits)

theorem delete_is_admin_only_witness:
  "router_delete (Some 9)
      [\<lparr>row_id = 9, row_name = ''Bo'', row_email = ''b@x.y'', row_password = ''h9'',
        row_role = ''user'', row_created_at = 3, row_updated_at = 2\<rparr>]
      \<lparr>cookies = None, user = Some \<lparr>id_of = 9, email_of = ''b@x.y'', role_of = JStr ''user''\<rparr>\<rparr>
     = (Respond 403 (ErrorBody ''Forbidden: insufficient permissions''),
        [\<lparr>row_id = 9, row_name = ''Bo'', row_email = ''b@x.y'', row_password = ''h9'',
          row_role = ''user'', row_created_at = 3, row_updated_at = 2\<rparr>])
   \<and> router_delete (Some 9)
      [\<lparr>row_id = 9, row_name = ''Bo'', row_email = ''b@x.y'', row_password = ''h9'',
        row_role = ''user'', row_created_at = 3, row_updated_at = 2\<rparr>]
      \<lparr>cookies = None, user = Some \<lparr>id_of = 2, email_of = ''r@x.y'', role_of = JStr ''admin''\<rparr>\<rparr>
     = (Respond 200 (UserBody ''User deleted successfully''
          \<lparr>view_id = 9, view_email = ''b@x.y'', view_name = ''Bo'', view_role = ''user'',
            view_created_at = 3, view_updated_at = 2\<rparr>), [])"
proof -
  let ?r9 = "\<lparr>row_id = 9, row_name = ''Bo'', row_email = ''b@x.y'', row_password = ''h9'',
        row_role = ''user'', row_created_at = 3, row_updated_at = 2\<rparr>"
  let ?B = "\<lparr>id_of = 9, email_of = ''b@x.y'', role_of = JStr ''user''\<rparr>"
  let ?R = "\<lparr>id_of = 2, email_of = ''r@x.y'', role_of = JStr ''admin''\<rparr>"
  let ?reqB = "\<lparr>cookies = None, user = Some ?B\<rparr>"
  let ?reqR = "\<lparr>cookies = None, user = Some ?R\<rparr>"
  have uB: "user ?reqB = Some ?B" by simp
  have uR: "user ?reqR = Some ?R" by simp
  have self: "router_delete (Some 9) [?r9] ?reqB
     = (Respond 403 (ErrorBody ''Forbidden: insufficient permissions''), [?r9])"
    using delete_is_admin_only [OF uB, where T = 9 and db = "[?r9]"] by simp
  have service: "deleteUserService [?r9] 9
     = (Inr \<lparr>view_id = 9, view_email = ''b@x.y'', view_name = ''Bo'', view_role = ''user'',
            view_created_at = 3, view_updated_at = 2\<rparr>, [])"
    by (simp add: deleteUserService_def returning_def)
  have through: "router_delete (Some 9) [?r9] ?reqR
     = (case deleteUserService [?r9] 9 of
          (Inr deletedUser, db') \<Rightarrow>
            (Respond 200 (UserBody ''User deleted successfully'' deletedUser), db')
        | (Inl err, db') \<Rightarrow> (on_service_error err, db'))"
    using delete_is_admin_only [OF uR, where T = 9 and db = "[?r9]"] by simp
  have admin: "router_delete (Some 9) [?r9] ?reqR
     = (Respond 200 (UserBody ''User deleted successfully''
          \<lparr>view_id = 9, view_email = ''b@x.y'', view_name = ''Bo'', view_role = ''user'',
            view_created_at = 3, view_updated_at = 2\<rparr>), [])"
    unfolding through service by simp
  show ?thesis using self admin by blast
qed

text \<open>
  C9. When the cookie's token verifies and its payload has no role (or a falsy one),
  the identity attached has role \<open>'user'\<close>: the request passes \<open>requireAuth\<close> and
  \<open>requireRoles('user')\<close>.
\<close>

theorem roleless_token_is_user:
  assumes "cookie_token req = Some t"
    and "jwttoken_verify e t now = Inr d"
    and "\<not> truthy (role_of d)"
  shows "attachUserFromToken e now req
           = (req\<lparr>user := Some \<lparr>id_of = id_of d, email_of = email_of d, role_of = JStr ''user''\<rparr>\<rparr>, Next)
       \<and> requireAuth (fst (attachUserFromToken e now req)) = Next
       \<and> requireRoles [''user''] (fst (attachUserFromToken e now req)) = Next"
proof -
  have nf: "\<not> token_falsy t"
    using assms(2) by (cases t) (auto simp: jwttoken_verify_def)
  have a: "attachUserFromToken e now req
           = (req\<lparr>user := Some \<lparr>id_of = id_of d, email_of = email_of d, role_of = JStr ''user''\<rparr>\<rparr>, Next)"
    using assms nf by (simp add: attachUserFromToken_def js_or_def)
  show ?thesis
    unfolding a by (simp add: requireAuth_def requireRoles_def)
qed

theorem roleless_token_is_user_witness:
  "attachUserFromToken \<lparr>NODE_ENV = None, JWT_SECRET_var = Some ''k''\<rparr> 100
      \<lparr>cookies = Some (map_of [(''token'',
           Signed \<lparr>id_of = 7, email_of = ''a@x.y'', role_of = JUndefined, iat = 50, exp = 86450\<rparr> ''k'')]),
        user = None\<rparr>
     = (\<lparr>cookies = Some (map_of [(''token'',
           Signed \<lparr>id_of = 7, email_of = ''a@x.y'', role_of = JUndefined, iat = 50, exp = 86450\<rparr> ''k'')]),
         user = None\<rparr>
         \<lparr>user := Some \<lparr>id_of = 7, email_of = ''a@x.y'', role_of = JStr ''user''\<rparr>\<rparr>, Next)
   \<and> requireRoles [''user'']
        (fst (attachUserFromToken \<lparr>NODE_ENV = None, JWT_SECRET_var = Some ''k''\<rparr> 100
          \<lparr>cookies = Some (map_of [(''token'',
             Signed \<lparr>id_of = 7, email_of = ''a@x.y'', role_of = JUndefined, iat = 50, exp = 86450\<rparr> ''k'')]),
            user = None\<rparr>)) = Next"
proof -
  let ?e = "\<lparr>NODE_ENV = None, JWT_SECRET_var = Some ''k''\<rparr>"
  let ?d = "\<lparr>id_of = 7, email_of = ''a@x.y'', role_of = JUndefined, iat = 50, exp = 86450\<rparr>"
  let ?req = "\<lparr>cookies = Some (map_of [(''token'', Signed ?d ''k'')]), user = None\<rparr>"
  have c: "cookie_token ?req = Some (Signed ?d ''k'')" by (simp add: cookie_token_def)
  have v: "jwttoken_verify ?e (Signed ?d ''k'') 100 = Inr ?d"
    by (simp add: jwttoken_verify_def JWT_SECRET_def)
  have f: "\<not> truthy (role_of ?d)" by simp
  show ?thesis using roleless_token_is_user [OF c v f] by (simp add: requireRoles_def)
qed

section \<open>Session cookie\<close>

text \<open>
  C7. The options of the session cookie are \<open>httpOnly\<close>, \<open>sameSite: 'strict'\<close>, \<open>secure\<close>
  exactly in production and a \<open>maxAge\<close> of 900 seconds (in milliseconds), and nothing
  else; \<open>cookies.set\<close> writes them whatever token it is given; the token that
  \<open>jwttoken.sign\<close> issues expires one day (86400 seconds) after \<open>iat\<close>.
\<close>

theorem session_cookie_attributes:
  "getOptions e ''httpOnly'' = Some (JBool True)
   \<and> getOptions e ''sameSite'' = Some (JStr ''strict'')
   \<and> getOptions e ''secure'' = Some (JBool (NODE_ENV e = Some ''production''))
   \<and> getOptions e ''maxAge'' = Some (JNum (900 * 1000))
   \<and> dom (getOptions e) = {''httpOnly'', ''secure'', ''sameSite'', ''maxAge''}
   \<and> cookies_set e res ''token'' t Map.empty
       = res\<lparr>cookie_calls := cookie_calls res @ [Cookie ''token'' t (getOptions e)]\<rparr>
   \<and> jwttoken_sign e I now
       = Inr (Signed \<lparr>id_of = id_of I, email_of = email_of I, role_of = role_of I,
                      iat = now, exp = now + 86400\<rparr> (JWT_SECRET e))"
proof -
  have ne: "JWT_SECRET e \<noteq> []"
    by (simp add: JWT_SECRET_def split: option.splits)
  have sg: "jwttoken_sign e I now
       = Inr (Signed \<lparr>id_of = id_of I, email_of = email_of I, role_of = role_of I,
                      iat = now, exp = now + 86400\<rparr> (JWT_SECRET e))"
    using ne by (simp add: jwttoken_sign_def jwt_sign_def JWT_EXPIRES_IN_def)
  have d: "dom (getOptions e) = {''httpOnly'', ''secure'', ''sameSite'', ''maxAge''}"
    by (auto simp: getOptions_def)
  show ?thesis
    using sg d by (simp add: getOptions_def cookies_set_def)
qed

text \<open>
  C8. \<open>cookies.get\<close> after \<open>cookies.clear\<close>: the read does not yield absent, it throws.
  \<open>get\<close> ignores its argument and indexes the \<open>cookies\<close> of the imported request
  prototype, which is undefined.
\<close>

theorem cookies_get_throws:
  "cookies_get (cookies_clear e res ''token'' Map.empty) ''token''
     = Inl (TypeError ''Cannot read properties of undefined'')
   \<and> cookies_get res name = Inl (TypeError ''Cannot read properties of undefined'')"
  by (simp add: cookies_get_def express_request_def)

section \<open>Rate limiting\<close>

lemma check_counted:
  assumes "store k = Some c" and "now - window_start c \<le> window_length"
  shows "check store now k t
           = (\<lparr>allowed = (count c + 1 \<le> max_count t), remaining = max_count t - (count c + 1)\<rparr>,
              store(k \<mapsto> c\<lparr>count := count c + 1\<rparr>))"
  using assms by (simp add: check_def Let_def)

lemma admit_guest_counted:
  assumes "store (by_ip ip) = Some c" and "now - window_start c \<le> window_length"
    and "user req = None" and "\<not> shield_trips req" and "\<not> bot_trips req"
  shows "admit shield_trips bot_trips store now ip req
           = (if count c + 1 \<le> 5 then \<lparr>allow = True, reason = reason_none\<rparr>
              else \<lparr>allow = False, reason = reason_rate_limit\<rparr>,
              store(by_ip ip \<mapsto> c\<lparr>count := count c + 1\<rparr>))"
  using assms
  by (simp add: admit_def key_for_def tier_for_def check_counted)

lemma admit_all_guest_counted:
  assumes "store (by_ip ip) = Some c"
    and "\<forall>(now, ip', req) \<in> set rs.
           ip' = ip \<and> user req = None \<and> \<not> shield_trips req \<and> \<not> bot_trips req
           \<and> now - window_start c \<le> window_length"
  shows "admit_all shield_trips bot_trips store rs
           = replicate (min (5 - count c) (length rs)) \<lparr>allow = True, reason = reason_none\<rparr>
             @ replicate (length rs - (5 - count c)) \<lparr>allow = False, reason = reason_rate_limit\<rparr>"
  using assms
proof (induction rs arbitrary: store c)
  case Nil
  then show ?case by simp
next
  case (Cons r rs)
  obtain now ip' req where r: "r = (now, ip', req)" by (cases r)
  from Cons.prems(2) have here: "ip' = ip" "user req = None" "\<not> shield_trips req"
    "\<not> bot_trips req" "now - window_start c \<le> window_length"
    by (auto simp: r)
  let ?c = "c\<lparr>count := count c + 1\<rparr>"
  let ?store = "store(by_ip ip \<mapsto> ?c)"
  have step: "admit shield_trips bot_trips store now ip req
           = (if count c + 1 \<le> 5 then \<lparr>allow = True, reason = reason_none\<rparr>
              else \<lparr>allow = False, reason = reason_rate_limit\<rparr>, ?store)"
    using Cons.prems(1) here by (simp add: admit_guest_counted)
  have s': "?store (by_ip ip) = Some ?c" by simp
  have rest: "\<forall>(now, ip', req) \<in> set rs.
           ip' = ip \<and> user req = None \<and> \<not> shield_trips req \<and> \<not> bot_trips req
           \<and> now - window_start ?c \<le> window_length"
    using Cons.prems(2) by auto
  have ih: "admit_all shield_trips bot_trips ?store rs
           = replicate (min (5 - count ?c) (length rs)) \<lparr>allow = True, reason = reason_none\<rparr>
             @ replicate (length rs - (5 - count ?c)) \<lparr>allow = False, reason = reason_rate_limit\<rparr>"
    using s' rest by (rule Cons.IH [where store = "?store" and c = "?c"])
  show ?case
  proof (cases "count c + 1 \<le> 5")
    case True
    then have m: "min (5 - count c) (Suc (length rs)) = Suc (min (5 - (count c + 1)) (length rs))"
      and d: "Suc (length rs) - (5 - count c) = length rs - (5 - (count c + 1))"
      by auto
    show ?thesis
      unfolding r here(1) using True ih step m d by simp
  next
    case False
    then have m: "5 - count c = 0" "5 - (count c + 1) = 0" by auto
    show ?thesis
      unfolding r here(1) using False ih step m by (simp add: replicate_app_Cons_same)
  qed
qed

text \<open>
  C6. Requests of one guest key (same IP, no identity, no detector tripping) that all
  arrive within one window of the first: the first five are admitted and every later one
  is denied with reason \<open>rate_limit\<close>; with six requests, five admissions and one denial.
  The tiers are guest 5, user 10, admin 20 per minute, chosen by the identity's role, no
  identity meaning guest.
\<close>

theorem guest_rate_limit:
  assumes fresh: "case store (by_ip ip) of None \<Rightarrow> True
                    | Some c \<Rightarrow> t1 - window_start c > window_length"
    and first: "user req1 = None \<and> \<not> shield_trips req1 \<and> \<not> bot_trips req1"
    and later: "\<forall>(now, ip', req) \<in> set rs.
                  ip' = ip \<and> user req = None \<and> \<not> shield_trips req \<and> \<not> bot_trips req
                  \<and> now - t1 \<le> window_length"
  shows "admit_all shield_trips bot_trips store ((t1, ip, req1) # rs)
           = replicate (min 5 (Suc (length rs))) \<lparr>allow = True, reason = reason_none\<rparr>
             @ replicate (Suc (length rs) - 5) \<lparr>allow = False, reason = reason_rate_limit\<rparr>
       \<and> (length rs = 5 \<longrightarrow>
            admit_all shield_trips bot_trips store ((t1, ip, req1) # rs)
              = replicate 5 \<lparr>allow = True, reason = reason_none\<rparr>
                @ [\<lparr>allow = False, reason = reason_rate_limit\<rparr>])
       \<and> max_count tier_guest = 5 \<and> max_count tier_user = 10 \<and> max_count tier_admin = 20
       \<and> window_length = 60
       \<and> tier_for None = tier_guest
       \<and> tier_for (Some \<lparr>id_of = n, email_of = m, role_of = JStr ''user''\<rparr>) = tier_user
       \<and> tier_for (Some \<lparr>id_of = n, email_of = m, role_of = JStr ''admin''\<rparr>) = tier_admin"
proof -
  let ?yes = "\<lparr>allow = True, reason = reason_none\<rparr>"
  let ?no = "\<lparr>allow = False, reason = reason_rate_limit\<rparr>"
  let ?c = "\<lparr>window_start = t1, count = 1\<rparr>"
  let ?store = "store(by_ip ip \<mapsto> ?c)"
  have one: "admit shield_trips bot_trips store t1 ip req1 = (?yes, ?store)"
    using first fresh
    by (auto simp: admit_def key_for_def tier_for_def check_def Let_def split: option.splits)
  have s': "?store (by_ip ip) = Some ?c" by simp
  have rest: "\<forall>(now, ip', req) \<in> set rs.
           ip' = ip \<and> user req = None \<and> \<not> shield_trips req \<and> \<not> bot_trips req
           \<and> now - window_start ?c \<le> window_length"
    using later by simp
  have tail: "admit_all shield_trips bot_trips ?store rs
           = replicate (min (5 - count ?c) (length rs)) ?yes
             @ replicate (length rs - (5 - count ?c)) ?no"
    using s' rest by (rule admit_all_guest_counted [where store = "?store" and c = "?c"])
  have all: "admit_all shield_trips bot_trips store ((t1, ip, req1) # rs)
           = replicate (min 5 (Suc (length rs))) ?yes @ replicate (Suc (length rs) - 5) ?no"
    using one tail by simp
  have six: "length rs = 5 \<longrightarrow>
            admit_all shield_trips bot_trips store ((t1, ip, req1) # rs)
              = replicate 5 ?yes @ [?no]"
    unfolding all by simp
  have tiers: "tier_for None = tier_guest
       \<and> tier_for (Some \<lparr>id_of = n, email_of = m, role_of = JStr ''user''\<rparr>) = tier_user
       \<and> tier_for (Some \<lparr>id_of = n, email_of = m, role_of = JStr ''admin''\<rparr>) = tier_admin"
    by (simp add: tier_for_def)
  show ?thesis
    using all six tiers by (simp add: window_length_def)
qed

theorem guest_rate_limit_witness:
  "admit_all (\<lambda>r. False) (\<lambda>r. False) Map.empty
     [(0, ''10.0.0.1'', \<lparr>cookies = None, user = None\<rparr>),
      (10, ''10.0.0.1'', \<lparr>cookies = None, user = None\<rparr>),
      (20, ''10.0.0.1'', \<lparr>cookies = None, user = None\<rparr>),
      (30, ''10.0.0.1'', \<lparr>cookies = None, user = None\<rparr>),
      (40, ''10.0.0.1'', \<lparr>cookies = None, user = None\<rparr>),
      (50, ''10.0.0.1'', \<lparr>cookies = None, user = None\<rparr>)]
   = replicate 5 \<lparr>allow = True, reason = reason_none\<rparr>
     @ [\<lparr>allow = False, reason = reason_rate_limit\<rparr>]"
proof -
  let ?g = "\<lparr>cookies = None, user = None\<rparr>"
  let ?rs = "[(10, ''10.0.0.1'', ?g), (20, ''10.0.0.1'', ?g), (30, ''10.0.0.1'', ?g),
              (40, ''10.0.0.1'', ?g), (50::nat, ''10.0.0.1'', ?g)]"
  have fresh: "case (Map.empty :: rate_key \<rightharpoonup> window_counter) (by_ip ''10.0.0.1'') of None \<Rightarrow> True
                 | Some c \<Rightarrow> (0::nat) - window_start c > window_length"
    by simp
  have first: "user ?g = None \<and> \<not> (\<lambda>r. False) ?g \<and> \<not> (\<lambda>r. False) ?g" by simp
  have later: "\<forall>(now, ip', req) \<in> set ?rs.
                  ip' = ''10.0.0.1'' \<and> user req = None \<and> \<not> (\<lambda>r. False) req \<and> \<not> (\<lambda>r. False) req
                  \<and> now - 0 \<le> window_length"
    by (simp add: window_length_def)
  have len: "length ?rs = 5" by simp
  from guest_rate_limit [where shield_trips = "\<lambda>r. False" and bot_trips = "\<lambda>r. False"
      and store = Map.empty and ip = "''10.0.0.1''" and ?t1.0 = 0 and ?req1.0 = ?g and rs = ?rs,
      OF fresh first later]
  have "length ?rs = 5 \<longrightarrow>
            admit_all (\<lambda>r. False) (\<lambda>r. False) Map.empty ((0, ''10.0.0.1'', ?g) # ?rs)
              = replicate 5 \<lparr>allow = True, reason = reason_none\<rparr>
                @ [\<lparr>allow = False, reason = reason_rate_limit\<rparr>]"
    by blast
  with len show ?thesis by blast
qed

section \<open>The frame of updateUser\<close>

lemma copy_allowed_append:
  "copy_allowed fs updates acc
     = acc @ concat (map (\<lambda>f. case updates f of Some v \<Rightarrow> [(f, v)] | None \<Rightarrow> []) fs)"
  by (induction fs arbitrary: acc) (auto split: option.splits)

lemma copy_allowed_fields:
  "copy_allowed allowedFields updates []
     = (case updates ''name'' of Some v \<Rightarrow> [(''name'', v)] | None \<Rightarrow> [])
     @ (case updates ''email'' of Some v \<Rightarrow> [(''email'', v)] | None \<Rightarrow> [])
     @ (case updates ''role'' of Some v \<Rightarrow> [(''role'', v)] | None \<Rightarrow> [])"
  by (simp add: copy_allowed_append allowedFields_def)

lemma assign_keeps:
  assumes "assign u (col, v) = Some u'"
  shows "col \<noteq> ''id'' \<Longrightarrow> row_id u' = row_id u"
    and "col \<noteq> ''name'' \<Longrightarrow> row_name u' = row_name u"
    and "col \<noteq> ''email'' \<Longrightarrow> row_email u' = row_email u"
    and "col \<noteq> ''password'' \<Longrightarrow> row_password u' = row_password u"
    and "col \<noteq> ''role'' \<Longrightarrow> row_role u' = row_role u"
    and "col \<noteq> ''created_at'' \<Longrightarrow> row_created_at u' = row_created_at u"
    and "col \<noteq> ''updated_at'' \<Longrightarrow> row_updated_at u' = row_updated_at u"
  using assms by (cases v; auto split: if_splits)+

lemma assign_all_keeps:
  assumes step: "\<And>u col v u'. assign u (col, v) = Some u' \<Longrightarrow> col \<noteq> c \<Longrightarrow> g u' = g u"
  shows "assign_all u sets = Some u' \<Longrightarrow> c \<notin> fst ` set sets \<Longrightarrow> g u' = g u"
proof (induction sets arbitrary: u)
  case Nil
  then show ?case by simp
next
  case (Cons a sets)
  obtain col v where a: "a = (col, v)" by (cases a)
  from Cons.prems(1) obtain u1 where s1: "assign u (col, v) = Some u1"
    and s2: "assign_all u1 sets = Some u'"
    by (auto simp: a split: option.splits)
  from Cons.prems(2) have ne: "col \<noteq> c" and rest: "c \<notin> fst ` set sets"
    by (auto simp: a)
  have "g u' = g u1" using Cons.IH [OF s2 rest] .
  also have "g u1 = g u" using step [OF s1 ne] .
  finally show ?case .
qed

lemma update_rows_keeps:
  assumes step: "\<And>u col v u'. assign u (col, v) = Some u' \<Longrightarrow> col \<noteq> c \<Longrightarrow> g u' = g u"
  shows "update_rows db i sets = Some (tbl, upd) \<Longrightarrow> c \<notin> fst ` set sets \<Longrightarrow> map g tbl = map g db"
proof (induction db arbitrary: tbl upd)
  case Nil
  then show ?case by simp
next
  case (Cons u us)
  from Cons.prems(1) obtain tbl0 upd0 where r: "update_rows us i sets = Some (tbl0, upd0)"
    by (auto split: option.splits)
  have ih: "map g tbl0 = map g us" using Cons.IH [OF r Cons.prems(2)] .
  show ?case
  proof (cases "row_id u = i")
    case True
    with Cons.prems(1) r obtain u' where a: "assign_all u sets = Some u'" and t: "tbl = u' # tbl0"
      by (auto split: option.splits)
    have "g u' = g u" using assign_all_keeps [OF step a Cons.prems(2)] .
    with ih show ?thesis unfolding t by simp
  next
    case False
    with Cons.prems(1) r have t: "tbl = u # tbl0" by auto
    from ih show ?thesis unfolding t by simp
  qed
qed

lemma update_rows_other_rows:
  "update_rows db i sets = Some (tbl, upd) \<Longrightarrow>
     length tbl = length db \<and> (\<forall>k < length db. row_id (db ! k) \<noteq> i \<longrightarrow> tbl ! k = db ! k)"
proof (induction db arbitrary: tbl upd)
  case Nil
  then show ?case by simp
next
  case (Cons u us)
  from Cons.prems obtain tbl0 upd0 where r: "update_rows us i sets = Some (tbl0, upd0)"
    by (auto split: option.splits)
  note ih = Cons.IH [OF r]
  from Cons.prems r obtain u' where t: "tbl = u' # tbl0" and same: "row_id u \<noteq> i \<longrightarrow> u' = u"
    by (auto split: option.splits if_splits)
  show ?case
    unfolding t using ih same by (auto simp: nth_Cons split: nat.splits)
qed


lemma updateUserService_cases:
  assumes run: "updateUserService schema_ok now db i updates = (r, db')"
    and existing: "filter (\<lambda>u. row_id u = i) db = existingUser # others"
  shows "(copy_allowed allowedFields updates [] = [] \<and> db' = db \<and> r = Inr (returning existingUser))
       \<or> (copy_allowed allowedFields updates [] \<noteq> [] \<and> db' = db)
       \<or> (copy_allowed allowedFields updates [] \<noteq> [] \<and>
            (\<exists>upd. update_rows db i
               (copy_allowed allowedFields updates [] @ [(''updated_at'', JDate now)]) = Some (db', upd)))"
proof (cases "copy_allowed allowedFields updates [] = []")
  case True
  with run existing show ?thesis by (simp add: updateUserService_def)
next
  case False
  show ?thesis
  proof (cases "update_rows db i (copy_allowed allowedFields updates [] @ [(''updated_at'', JDate now)])")
    case None
    with run existing False show ?thesis
      by (simp add: updateUserService_def db_update_def)
  next
    case (Some p)
    obtain tbl upd where p: "p = (tbl, upd)" by (cases p)
    show ?thesis
    proof (cases "schema_ok tbl")
      case True
      with run existing False Some p have "db' = tbl"
        by (cases upd) (simp_all add: updateUserService_def db_update_def)
      with False Some p show ?thesis by simp
    next
      case ok: False
      with run existing False Some p have "db' = db"
        by (simp add: updateUserService_def db_update_def)
      with False show ?thesis by simp
    qed
  qed
qed

text \<open>
  C10. \<open>updateUser(id, updates)\<close> on an existing user: whatever keys \<open>updates\<close> has, the
  \<open>id\<close>, \<open>password\<close> and \<open>created_at\<close> of every row stay as they were, \<open>name\<close>, \<open>email\<close>
  and \<open>role\<close> stay unless \<open>updates\<close> has that key, and rows of other users are untouched;
  with none of the three keys nothing is written and the existing record is returned.
\<close>

theorem updateUserService_frame:
  assumes run: "updateUserService schema_ok now db i updates = (r, db')"
    and existing: "filter (\<lambda>u. row_id u = i) db = existingUser # others"
  shows "map row_id db' = map row_id db
       \<and> map row_password db' = map row_password db
       \<and> map row_created_at db' = map row_created_at db
       \<and> (updates ''name'' = None \<longrightarrow> map row_name db' = map row_name db)
       \<and> (updates ''email'' = None \<longrightarrow> map row_email db' = map row_email db)
       \<and> (updates ''role'' = None \<longrightarrow> map row_role db' = map row_role db)
       \<and> length db' = length db
       \<and> (\<forall>k < length db. row_id (db ! k) \<noteq> i \<longrightarrow> db' ! k = db ! k)
       \<and> (updates ''name'' = None \<and> updates ''email'' = None \<and> updates ''role'' = None \<longrightarrow>
            db' = db \<and> r = Inr (returning existingUser))"
proof -
  let ?data = "copy_allowed allowedFields updates []"
  let ?sets = "?data @ [(''updated_at'', JDate now)]"
  have empty: "?data = [] \<longleftrightarrow>
      updates ''name'' = None \<and> updates ''email'' = None \<and> updates ''role'' = None"
    by (simp add: copy_allowed_fields split: option.splits)
  from updateUserService_cases [OF run existing]
  consider (nothing) "?data = []" "db' = db" "r = Inr (returning existingUser)"
    | (rejected) "?data \<noteq> []" "db' = db"
    | (written) upd where "?data \<noteq> []" "update_rows db i ?sets = Some (db', upd)"
    by blast
  then show ?thesis
  proof cases
    case nothing
    then show ?thesis by simp
  next
    case rejected
    with empty show ?thesis by auto
  next
    case written
    note u = written(2)
    have k_id: "''id'' \<notin> fst ` set ?sets"
      by (auto simp: copy_allowed_fields split: option.splits)
    have k_pw: "''password'' \<notin> fst ` set ?sets"
      by (auto simp: copy_allowed_fields split: option.splits)
    have k_cr: "''created_at'' \<notin> fst ` set ?sets"
      by (auto simp: copy_allowed_fields split: option.splits)
    have k_name: "updates ''name'' = None \<Longrightarrow> ''name'' \<notin> fst ` set ?sets"
      by (auto simp: copy_allowed_fields split: option.splits)
    have k_email: "updates ''email'' = None \<Longrightarrow> ''email'' \<notin> fst ` set ?sets"
      by (auto simp: copy_allowed_fields split: option.splits)
    have k_role: "updates ''role'' = None \<Longrightarrow> ''role'' \<notin> fst ` set ?sets"
      by (auto simp: copy_allowed_fields split: option.splits)
    have f_id: "map row_id db' = map row_id db"
      using update_rows_keeps [OF assign_keeps(1) u k_id] .
    have f_pw: "map row_password db' = map row_password db"
      using update_rows_keeps [OF assign_keeps(4) u k_pw] .
    have f_cr: "map row_created_at db' = map row_created_at db"
      using update_rows_keeps [OF assign_keeps(6) u k_cr] .
    have f_name: "updates ''name'' = None \<Longrightarrow> map row_name db' = map row_name db"
      using update_rows_keeps [OF assign_keeps(2) u k_name] .
    have f_email: "updates ''email'' = None \<Longrightarrow> map row_email db' = map row_email db"
      using update_rows_keeps [OF assign_keeps(3) u k_email] .
    have f_role: "updates ''role'' = None \<Longrightarrow> map row_role db' = map row_role db"
      using update_rows_keeps [OF assign_keeps(5) u k_role] .
    note others = update_rows_other_rows [OF u]
    from written(1) empty
    have some: "\<not> (updates ''name'' = None \<and> updates ''email'' = None \<and> updates ''role'' = None)"
      by simp
    show ?thesis
      using f_id f_pw f_cr f_name f_email f_role others some by blast
  qed
qed

theorem updateUserService_frame_witness:
  "updateUserService (distinct \<circ> map row_email) 50
      [\<lparr>row_id = 9, row_name = ''Bo'', row_email = ''b@x.y'', row_password = ''h9'',
        row_role = ''user'', row_created_at = 3, row_updated_at = 2\<rparr>] 9
      (map_of [(''name'', JStr ''Zed''), (''password'', JStr ''pwned''), (''id'', JNum 1)])
     = (Inr \<lparr>view_id = 9, view_email = ''b@x.y'', view_name = ''Zed'', view_role = ''user'',
            view_created_at = 3, view_updated_at = 50\<rparr>,
        [\<lparr>row_id = 9, row_name = ''Zed'', row_email = ''b@x.y'', row_password = ''h9'',
          row_role = ''user'', row_created_at = 3, row_updated_at = 50\<rparr>])
   \<and> map row_password
        [\<lparr>row_id = 9, row_name = ''Zed'', row_email = ''b@x.y'', row_password = ''h9'',
          row_role = ''user'', row_created_at = 3, row_updated_at = 50\<rparr>]
     = map row_password
        [\<lparr>row_id = 9, row_name = ''Bo'', row_email = ''b@x.y'', row_password = ''h9'',
          row_role = ''user'', row_created_at = 3, row_updated_at = 2\<rparr>]"
proof -
  let ?ok = "distinct \<circ> map row_email"
  let ?r9 = "\<lparr>row_id = 9, row_name = ''Bo'', row_email = ''b@x.y'', row_password = ''h9'',
        row_role = ''user'', row_created_at = 3, row_updated_at = 2\<rparr>"
  let ?r9' = "\<lparr>row_id = 9, row_name = ''Zed'', row_email = ''b@x.y'', row_password = ''h9'',
          row_role = ''user'', row_created_at = 3, row_updated_at = 50\<rparr>"
  let ?updates = "map_of [(''name'', JStr ''Zed''), (''password'', JStr ''pwned''), (''id'', JNum 1)]"
  have run: "updateUserService ?ok 50 [?r9] 9 ?updates
     = (Inr \<lparr>view_id = 9, view_email = ''b@x.y'', view_name = ''Zed'', view_role = ''user'',
            view_created_at = 3, view_updated_at = 50\<rparr>, [?r9'])"
    by (simp add: updateUserService_def allowedFields_def db_update_def returning_def)
  have existing: "filter (\<lambda>u. row_id u = 9) [?r9] = ?r9 # []" by simp
  from updateUserService_frame [OF run existing]
  have "map row_password [?r9'] = map row_password [?r9]" by blast
  with run show ?thesis by blast
qed

end
